theory Spec2Isabelle
  imports Complex_Main "HOL-Library.AList"
begin

section \<open>Errors\<close>

text \<open>
  Every exception the three source files can raise is a value. \<open>TypeError\<close> is the
  JavaScript runtime error of calling a method on \<open>undefined\<close>; \<open>Error\<close> is the
  plain \<open>new Error(message)\<close>; \<open>TimeoutError\<close> and \<open>InternalError\<close> are the classes
  imported from \<open>./errors\<close>; \<open>APIError\<close> stands for whatever a call of the API client
  rejects with.
\<close>

datatype error =
    TypeError
  | Error string
  | TimeoutError string
  | InternalError string
  | APIError string

section \<open>Transfer: data model (transfer.ts)\<close>

text \<open>
  Modelled from the spec: the classes \<open>Transaction\<close> (transaction.ts) and
  \<open>SponsoredSend\<close> (sponsored_send.ts) and the records they wrap are not among the
  sources. Section 3 of the specification gives a send delegate four derived
  attributes: a raw status, a transaction hash, an explorer link and a signed payload,
  each possibly absent. Section 4.1 gives both variants the same capability surface over
  them; \<open>isSigned\<close> is true once a signed payload is present.
\<close>

record DelegateModel =
  status :: "string option"
  transaction_hash :: "string option"
  transaction_link :: "string option"
  signed_payload :: "string option"

datatype SendDelegate =
    Transaction DelegateModel
  | SponsoredSend DelegateModel

fun delegate_model :: "SendDelegate \<Rightarrow> DelegateModel" where
  "delegate_model (Transaction m) = m"
| "delegate_model (SponsoredSend m) = m"

definition delegate_getStatus :: "SendDelegate \<Rightarrow> string option" where
  "delegate_getStatus d = status (delegate_model d)"

definition delegate_getTransactionHash :: "SendDelegate \<Rightarrow> string option" where
  "delegate_getTransactionHash d = transaction_hash (delegate_model d)"

definition delegate_getTransactionLink :: "SendDelegate \<Rightarrow> string option" where
  "delegate_getTransactionLink d = transaction_link (delegate_model d)"

definition delegate_getSignature :: "SendDelegate \<Rightarrow> string option" where
  "delegate_getSignature d = signed_payload (delegate_model d)"

definition delegate_isSigned :: "SendDelegate \<Rightarrow> bool" where
  "delegate_isSigned d = (delegate_getSignature d \<noteq> None)"

text \<open>
  Modelled from the spec: the enums of types.ts are not among the sources. The raw
  statuses are string enums; a \<open>switch\<close> compares their values with \<open>===\<close>. The values
  are the lower-case names the table of section 4.2 gives them.
\<close>

definition TransactionStatus_PENDING :: string where
  "TransactionStatus_PENDING = ''pending''"

definition TransactionStatus_BROADCAST :: string where
  "TransactionStatus_BROADCAST = ''broadcast''"

definition TransactionStatus_COMPLETE :: string where
  "TransactionStatus_COMPLETE = ''complete''"

definition TransactionStatus_FAILED :: string where
  "TransactionStatus_FAILED = ''failed''"

definition SponsoredSendStatus_PENDING :: string where
  "SponsoredSendStatus_PENDING = ''pending''"

definition SponsoredSendStatus_SIGNED :: string where
  "SponsoredSendStatus_SIGNED = ''signed''"

definition SponsoredSendStatus_SUBMITTED :: string where
  "SponsoredSendStatus_SUBMITTED = ''submitted''"

definition SponsoredSendStatus_COMPLETE :: string where
  "SponsoredSendStatus_COMPLETE = ''complete''"

definition SponsoredSendStatus_FAILED :: string where
  "SponsoredSendStatus_FAILED = ''failed''"

text \<open>The unified status, enum \<open>TransferStatus\<close> of types.ts.\<close>

datatype TransferStatus = PENDING | BROADCAST | COMPLETE | FAILED

text \<open>
  The record \<open>Transfer\<close> of the generated API client, with the fields transfer.ts reads.
  The two optional sub-records are \<open>undefined\<close> when absent.
\<close>

record AssetModel =
  decimals :: "nat option"

record TransferModel =
  transfer_id :: string
  network_id :: string
  wallet_id :: string
  address_id :: string
  destination :: string
  asset_id :: string
  amount :: string
  asset :: AssetModel
  transaction :: "DelegateModel option"
  sponsored_send :: "DelegateModel option"

text \<open>
  The class holds one private field that its methods use, \<open>model\<close>. (The second
  private field, \<open>transaction\<close>, is never read or written in transfer.ts.)
\<close>

datatype Transfer = Transfer (model: TransferModel)

text \<open>The constructor refuses a falsy model.\<close>

definition Transfer_new :: "TransferModel option \<Rightarrow> error + Transfer" where
  "Transfer_new transferModel =
     (case transferModel of
        None \<Rightarrow> Inl (InternalError ''Transfer model cannot be empty'')
      | Some m \<Rightarrow> Inr (Transfer m))"

definition fromModel :: "TransferModel option \<Rightarrow> error + Transfer" where
  "fromModel transferModel = Transfer_new transferModel"

definition getId :: "Transfer \<Rightarrow> string" where
  "getId t = transfer_id (model t)"

definition getNetworkId :: "Transfer \<Rightarrow> string" where
  "getNetworkId t = network_id (model t)"

definition getWalletId :: "Transfer \<Rightarrow> string" where
  "getWalletId t = wallet_id (model t)"

definition getFromAddressId :: "Transfer \<Rightarrow> string" where
  "getFromAddressId t = address_id (model t)"

definition getDestinationAddressId :: "Transfer \<Rightarrow> string" where
  "getDestinationAddressId t = destination (model t)"

definition getAssetId :: "Transfer \<Rightarrow> string" where
  "getAssetId t = asset_id (model t)"

definition getTransaction :: "Transfer \<Rightarrow> SendDelegate option" where
  "getTransaction t =
     (case transaction (model t) of
        None \<Rightarrow> None
      | Some m \<Rightarrow> Some (Transaction m))"

definition getSponsoredSend :: "Transfer \<Rightarrow> SendDelegate option" where
  "getSponsoredSend t =
     (case sponsored_send (model t) of
        None \<Rightarrow> None
      | Some m \<Rightarrow> Some (SponsoredSend m))"

definition getSendTransactionDelegate :: "Transfer \<Rightarrow> SendDelegate option" where
  "getSendTransactionDelegate t =
     (if getTransaction t = None then getSponsoredSend t else getTransaction t)"

text \<open>\<open>delegate?.getTransactionHash()\<close>: optional chaining gives \<open>undefined\<close> without a delegate.\<close>

definition getTransactionHash :: "Transfer \<Rightarrow> string option" where
  "getTransactionHash t =
     (case getSendTransactionDelegate t of
        None \<Rightarrow> None
      | Some d \<Rightarrow> delegate_getTransactionHash d)"

definition getTransactionLink :: "Transfer \<Rightarrow> string option" where
  "getTransactionLink t =
     (case getSendTransactionDelegate t of
        None \<Rightarrow> None
      | Some d \<Rightarrow> delegate_getTransactionLink d)"

text \<open>
  The \<open>switch\<close> of \<open>getStatus\<close>, in the order of its cases. The scrutinee is the
  delegate's raw status, a string or \<open>undefined\<close>; \<open>undefined\<close> equals no case label.
\<close>

definition status_switch :: "string option \<Rightarrow> TransferStatus option" where
  "status_switch s =
     (if s = Some TransactionStatus_PENDING then Some PENDING
      else if s = Some SponsoredSendStatus_PENDING then Some PENDING
      else if s = Some SponsoredSendStatus_SIGNED then Some PENDING
      else if s = Some TransactionStatus_BROADCAST then Some BROADCAST
      else if s = Some SponsoredSendStatus_SUBMITTED then Some BROADCAST
      else if s = Some TransactionStatus_COMPLETE then Some COMPLETE
      else if s = Some SponsoredSendStatus_COMPLETE then Some COMPLETE
      else if s = Some TransactionStatus_FAILED then Some FAILED
      else if s = Some SponsoredSendStatus_FAILED then Some FAILED
      else None)"

text \<open>
  \<open>this.getSendTransactionDelegate()!.getStatus()!\<close>: the non-null assertions are
  erased by the compiler, so without a delegate the method call is on \<open>undefined\<close>
  and raises a \<open>TypeError\<close>.
\<close>

definition getStatus :: "Transfer \<Rightarrow> error + TransferStatus option" where
  "getStatus t =
     (case getSendTransactionDelegate t of
        None \<Rightarrow> Inl TypeError
      | Some d \<Rightarrow> Inr (status_switch (delegate_getStatus d)))"

section \<open>Transfer: the remote service, the clock and the protocol (transfer.ts)\<close>

text \<open>
  The API client (\<open>Coinbase.apiClients.transfer\<close>), the clock (\<open>Date.now()\<close>) and the
  timer are outside the three files: the client is a parameter, and what the program does
  to the outside is an explicit \<open>world\<close>, passed in and returned. The world holds the
  clock, in milliseconds as \<open>Date.now()\<close> reads it, and the trace of the calls made so far.
  An endpoint is any deterministic collaborator: its answer may depend on the whole
  history (the trace before the call) and on its arguments; it returns how many
  milliseconds the call took and either the error the call rejects with or the record of
  the response.
\<close>

datatype event =
    BroadcastTransfer string string string "string option"
  | GetTransfer string string string
  | Delay rat

record world =
  clock :: int
  trace :: "event list"

record TransferApi =
  broadcastTransfer ::
    "event list \<Rightarrow> string \<Rightarrow> string \<Rightarrow> string \<Rightarrow> string option \<Rightarrow> nat \<times> (error + TransferModel)"
  getTransfer ::
    "event list \<Rightarrow> string \<Rightarrow> string \<Rightarrow> string \<Rightarrow> nat \<times> (error + TransferModel)"

definition call_broadcastTransfer ::
  "TransferApi \<Rightarrow> world \<Rightarrow> string \<Rightarrow> string \<Rightarrow> string \<Rightarrow> string option
     \<Rightarrow> (error + TransferModel) \<times> world" where
  "call_broadcastTransfer api w walletId addressId transferId payload =
     (case broadcastTransfer api (trace w) walletId addressId transferId payload of
        (latency, response) \<Rightarrow>
          (response,
           w\<lparr>clock := clock w + int latency,
             trace := trace w @ [BroadcastTransfer walletId addressId transferId payload]\<rparr>))"

definition call_getTransfer ::
  "TransferApi \<Rightarrow> world \<Rightarrow> string \<Rightarrow> string \<Rightarrow> string \<Rightarrow> (error + TransferModel) \<times> world" where
  "call_getTransfer api w walletId addressId transferId =
     (case getTransfer api (trace w) walletId addressId transferId of
        (latency, response) \<Rightarrow>
          (response,
           w\<lparr>clock := clock w + int latency,
             trace := trace w @ [GetTransfer walletId addressId transferId]\<rparr>))"

text \<open>
  Modelled from the spec: \<open>delay\<close> of utils.ts is not among the sources. Section 6 names a
  suspend-for-duration primitive: the caller resumes once the duration, given in seconds,
  has passed on the clock. A timer counts whole milliseconds and never runs backwards.
\<close>

definition delay :: "rat \<Rightarrow> world \<Rightarrow> world" where
  "delay seconds w =
     w\<lparr>clock := clock w + max 0 \<lfloor>seconds * 1000\<rfloor>, trace := trace w @ [Delay seconds]\<rparr>"

text \<open>
  A method that assigns to \<open>this.model\<close> returns the receiver after the call next to its
  result: the triple is (result or error, receiver afterwards, world afterwards).
\<close>

definition reload :: "TransferApi \<Rightarrow> world \<Rightarrow> Transfer \<Rightarrow> (error + unit) \<times> Transfer \<times> world" where
  "reload api w this =
     (case call_getTransfer api w (getWalletId this) (getFromAddressId this) (getId this) of
        (Inl e, w') \<Rightarrow> (Inl e, this, w')
      | (Inr result_data, w') \<Rightarrow> (Inr (), Transfer result_data, w'))"

text \<open>
  \<open>!this.getSendTransactionDelegate()?.isSigned()\<close>: without a delegate the optional chain
  is \<open>undefined\<close>, which is falsy, so the guard raises as for an unsigned delegate.
\<close>

definition broadcast ::
  "TransferApi \<Rightarrow> world \<Rightarrow> Transfer \<Rightarrow> (error + Transfer) \<times> Transfer \<times> world" where
  "broadcast api w this =
     (if \<not> (case getSendTransactionDelegate this of
                None \<Rightarrow> False
              | Some d \<Rightarrow> delegate_isSigned d)
      then (Inl (Error ''Cannot broadcast unsigned Transfer''), this, w)
      else
        (case getSendTransactionDelegate this of
           None \<Rightarrow> (Inl TypeError, this, w)
         | Some d \<Rightarrow>
             (case call_broadcastTransfer api w (getWalletId this) (getFromAddressId this)
                     (getId this) (delegate_getSignature d) of
                (Inl e, w') \<Rightarrow> (Inl e, this, w')
              | (Inr response_data, w') \<Rightarrow> (fromModel (Some response_data), this, w'))))"

text \<open>
  The polling loop of \<open>wait\<close>. It runs for as long as the clock says so, which no measure
  on the arguments bounds: the recursion is on fuel, and \<open>None\<close> says that the fuel ran out
  with the loop still going. The seconds are JavaScript numbers in the source and
  rationals here.
\<close>

fun wait_loop ::
  "nat \<Rightarrow> TransferApi \<Rightarrow> rat \<Rightarrow> rat \<Rightarrow> int \<Rightarrow> Transfer \<Rightarrow> world
     \<Rightarrow> ((error + Transfer) \<times> Transfer \<times> world) option" where
  "wait_loop 0 api intervalSeconds timeoutSeconds startTime this w = None"
| "wait_loop (Suc fuel) api intervalSeconds timeoutSeconds startTime this w =
     (if of_int (clock w - startTime) < timeoutSeconds * 1000 then
        (case reload api w this of
           (Inl e, this', w') \<Rightarrow> Some (Inl e, this', w')
         | (Inr u, this', w') \<Rightarrow>
             (case getStatus this' of
                Inl e \<Rightarrow> Some (Inl e, this', w')
              | Inr status' \<Rightarrow>
                  if status' = Some COMPLETE \<or> status' = Some FAILED
                  then Some (Inr this', this', w')
                  else wait_loop fuel api intervalSeconds timeoutSeconds startTime this'
                         (delay intervalSeconds w')))
      else Some (Inl (TimeoutError ''Transfer timed out''), this, w))"

definition wait ::
  "nat \<Rightarrow> TransferApi \<Rightarrow> rat \<Rightarrow> rat \<Rightarrow> Transfer \<Rightarrow> world
     \<Rightarrow> ((error + Transfer) \<times> Transfer \<times> world) option" where
  "wait fuel api intervalSeconds timeoutSeconds this w =
     wait_loop fuel api intervalSeconds timeoutSeconds (clock w) this w"

text \<open>How many reloads and how many sleeps a trace holds.\<close>

definition reloads_in :: "event list \<Rightarrow> nat" where
  "reloads_in tr = length (filter (\<lambda>e. case e of GetTransfer a b c \<Rightarrow> True | _ \<Rightarrow> False) tr)"

definition sleeps_in :: "event list \<Rightarrow> nat" where
  "sleeps_in tr = length (filter (\<lambda>e. case e of Delay s \<Rightarrow> True | _ \<Rightarrow> False) tr)"


text \<open>
  What a get call would make of a record: the raw status its active delegate reports,
  and whether its unified status is there and is neither COMPLETE nor FAILED.
\<close>

definition raw_status :: "TransferModel \<Rightarrow> string option" where
  "raw_status m =
     (case getSendTransactionDelegate (Transfer m) of
        None \<Rightarrow> None
      | Some d \<Rightarrow> delegate_getStatus d)"

definition non_terminal :: "TransferModel \<Rightarrow> bool" where
  "non_terminal m =
     (case getStatus (Transfer m) of
        Inl e \<Rightarrow> False
      | Inr s \<Rightarrow> s \<noteq> Some COMPLETE \<and> s \<noteq> Some FAILED)"

text \<open>
  The answers of a service to the successive reloads of one run of \<open>wait\<close>, as a list of
  (milliseconds taken, record). \<open>service_answers api intervalSeconds tr this answers\<close>:
  asked after the history \<open>tr\<close> for the Transfer \<open>this\<close>, the get endpoint gives the first
  answer; asked again for the Transfer of that answer, after that call and one sleep of
  the interval have joined the history, it gives the second; and so on. This is a
  statement about the service alone. \<open>turns_duration\<close> is the time on the clock that the
  loop turns of a list of answers take: each its reload and its sleep.
\<close>

fun service_answers ::
  "TransferApi \<Rightarrow> rat \<Rightarrow> event list \<Rightarrow> Transfer \<Rightarrow> (nat \<times> TransferModel) list \<Rightarrow> bool" where
  "service_answers api intervalSeconds tr this [] = True"
| "service_answers api intervalSeconds tr this ((latency, m) # rest) =
     (getTransfer api tr (getWalletId this) (getFromAddressId this) (getId this)
        = (latency, Inr m)
      \<and> service_answers api intervalSeconds
          (tr @ [GetTransfer (getWalletId this) (getFromAddressId this) (getId this),
                 Delay intervalSeconds])
          (Transfer m) rest)"

fun turns_duration :: "rat \<Rightarrow> (nat \<times> TransferModel) list \<Rightarrow> int" where
  "turns_duration intervalSeconds [] = 0"
| "turns_duration intervalSeconds ((latency, m) # rest) =
     int latency + max 0 \<lfloor>intervalSeconds * 1000\<rfloor> + turns_duration intervalSeconds rest"

section \<open>StakingBalance.list (staking_balance.ts)\<close>

text \<open>
  The record of the generated client and the \<open>Asset\<close> class are declared outside the three
  files and \<open>list\<close> never looks inside them: they are the type parameters \<open>'m\<close> and \<open>'a\<close>.
\<close>

datatype ('m, 'a) StakingBalance = StakingBalance (sb_model: 'm) (sb_asset: 'a)

text \<open>
  The request object; its fields are \<open>network_id\<close>, \<open>asset_id\<close>, \<open>address_id\<close>,
  \<open>start_time\<close> and \<open>end_time\<close> in the source.
\<close>

record StakingBalancesRequest =
  req_network_id :: string
  req_asset_id :: string
  req_address_id :: string
  req_start_time :: string
  req_end_time :: string

text \<open>The body of a page response (\<open>response.data\<close>).\<close>

record 'm StakingBalancesPage =
  data :: "'m list"
  has_more :: bool
  next_page :: "string option"

text \<open>
  The collaborators of \<open>list\<close>, all outside the three files and so parameters:
  \<open>Coinbase.normalizeNetwork\<close>, the staking endpoint (request, page size, cursor or
  \<open>undefined\<close>) and \<open>Asset.fetch\<close>. The last two can reject.
\<close>

record ('m, 'a) StakeApi =
  normalizeNetwork :: "string \<Rightarrow> string"
  fetchStakingBalances ::
    "StakingBalancesRequest \<Rightarrow> nat \<Rightarrow> string option \<Rightarrow> error + 'm StakingBalancesPage"
  Asset_fetch :: "string \<Rightarrow> string \<Rightarrow> error + 'a"

text \<open>The five arguments of \<open>list\<close>.\<close>

record list_args =
  networkId :: string
  assetId :: string
  addressId :: string
  startTime :: string
  endTime :: string

text \<open>The two local arrays of \<open>list\<close>.\<close>

record ('m, 'a) list_state =
  stakingBalances :: "('m, 'a) StakingBalance list"
  queue :: "string list"

definition list_init :: "('m, 'a) list_state" where
  "list_init = \<lparr>stakingBalances = [], queue = [[]]\<rparr>"

text \<open>
  One run of the loop body. \<open>queue.shift()\<close> takes the first entry (\<open>undefined\<close> from an
  empty array); an empty or undefined entry sends no cursor. A next-page cursor is
  pushed when \<open>has_more\<close> is true and \<open>next_page\<close> is truthy, that is, a non-empty string.
\<close>

definition list_body ::
  "('m, 'a) StakeApi \<Rightarrow> list_args \<Rightarrow> ('m, 'a) list_state \<Rightarrow> error + ('m, 'a) list_state" where
  "list_body api args st =
     (let page = (case queue st of [] \<Rightarrow> None | p # ps \<Rightarrow> Some p);
          queue1 = (case queue st of [] \<Rightarrow> [] | p # ps \<Rightarrow> ps);
          request = \<lparr>req_network_id = normalizeNetwork api (networkId args),
                     req_asset_id = assetId args,
                     req_address_id = addressId args,
                     req_start_time = startTime args,
                     req_end_time = endTime args\<rparr>
      in case fetchStakingBalances api request 100
                (case page of None \<Rightarrow> None | Some p \<Rightarrow> if length p \<noteq> 0 then Some p else None) of
           Inl e \<Rightarrow> Inl e
         | Inr response_data \<Rightarrow>
             (case Asset_fetch api (networkId args) (assetId args) of
                Inl e \<Rightarrow> Inl e
              | Inr asset' \<Rightarrow>
                  Inr \<lparr>stakingBalances =
                         stakingBalances st
                           @ map (\<lambda>stakingBalance. StakingBalance stakingBalance asset')
                               (data response_data),
                       queue =
                         (if has_more response_data then
                            (case next_page response_data of
                               None \<Rightarrow> queue1
                             | Some c \<Rightarrow> if c \<noteq> [] then queue1 @ [c] else queue1)
                          else queue1)\<rparr>))"

text \<open>
  The loop \<open>while (queue.length > 0)\<close>. A service that always announces another page
  keeps it running for ever: the recursion is on fuel, and \<open>None\<close> says that the fuel ran
  out with the queue still non-empty.
\<close>

fun list_loop ::
  "nat \<Rightarrow> ('m, 'a) StakeApi \<Rightarrow> list_args \<Rightarrow> ('m, 'a) list_state
     \<Rightarrow> (error + ('m, 'a) StakingBalance list) option" where
  "list_loop 0 api args st = None"
| "list_loop (Suc fuel) api args st =
     (if length (queue st) > 0 then
        (case list_body api args st of
           Inl e \<Rightarrow> Some (Inl e)
         | Inr st' \<Rightarrow> list_loop fuel api args st')
      else Some (Inr (stakingBalances st)))"

definition StakingBalance_list ::
  "nat \<Rightarrow> ('m, 'a) StakeApi \<Rightarrow> list_args \<Rightarrow> (error + ('m, 'a) StakingBalance list) option" where
  "StakingBalance_list fuel api args = list_loop fuel api args list_init"

text \<open>
  The states in which an execution of \<open>list\<close> stands at the head of its loop: the initial
  one, and the one a loop body leaves behind when it was entered with a non-empty queue
  and did not raise.
\<close>

inductive loop_head :: "('m, 'a) StakeApi \<Rightarrow> list_args \<Rightarrow> ('m, 'a) list_state \<Rightarrow> bool"
  for api :: "('m, 'a) StakeApi" and args :: list_args where
  loop_head_init: "loop_head api args list_init"
| loop_head_step:
    "loop_head api args st \<Longrightarrow> length (queue st) > 0 \<Longrightarrow> list_body api args st = Inr st'
       \<Longrightarrow> loop_head api args st'"

text \<open>
  A sequence of pages as a service hands them out. \<open>serves api req cursor pages\<close>: asked
  with \<open>cursor\<close>, the endpoint answers with the first page; every page but the last says
  \<open>has_more\<close> and names a non-empty cursor, with which the endpoint answers the next page.
  Nothing is asked of the last page here.
\<close>

fun serves ::
  "('m, 'a) StakeApi \<Rightarrow> StakingBalancesRequest \<Rightarrow> string option \<Rightarrow> 'm StakingBalancesPage list
     \<Rightarrow> bool" where
  "serves api req cursor [] = False"
| "serves api req cursor [p] = (fetchStakingBalances api req 100 cursor = Inr p)"
| "serves api req cursor (p # q # ps) =
     (fetchStakingBalances api req 100 cursor = Inr p \<and> has_more p
      \<and> (case next_page p of
            None \<Rightarrow> False
          | Some c \<Rightarrow> c \<noteq> [] \<and> serves api req (Some c) (q # ps)))"

text \<open>A page after which the loop asks for no other: no more pages, or no cursor to ask with.\<close>

definition stops :: "'m StakingBalancesPage \<Rightarrow> bool" where
  "stops p =
     (if has_more p then (case next_page p of None \<Rightarrow> True | Some c \<Rightarrow> c = []) else True)"

definition request_of :: "('m, 'a) StakeApi \<Rightarrow> list_args \<Rightarrow> StakingBalancesRequest" where
  "request_of api args =
     \<lparr>req_network_id = normalizeNetwork api (networkId args),
      req_asset_id = assetId args,
      req_address_id = addressId args,
      req_start_time = startTime args,
      req_end_time = endTime args\<rparr>"

definition records_of :: "'a \<Rightarrow> 'm StakingBalancesPage list \<Rightarrow> ('m, 'a) StakingBalance list" where
  "records_of a pages = concat (map (\<lambda>p. map (\<lambda>m. StakingBalance m a) (data p)) pages)"

section \<open>BalanceMap (balance_map.ts)\<close>

text \<open>
  The class \<open>Balance\<close> (balance.ts) is not among the sources; balance_map.ts reads its
  fields \<open>assetId\<close> and \<open>amount\<close>. The amount is a \<open>Decimal\<close> that the map only stores: the
  type parameter \<open>'d\<close>.
\<close>

datatype 'd Balance = Balance (balance_amount: 'd) (balance_assetId: string)

text \<open>
  The private field \<open>map\<close> is a JavaScript \<open>Map\<close>: it keeps its keys in the order of their
  first insertion, and \<open>set\<close> on a key it holds replaces the value in place. That is an
  association list under \<open>AList.update\<close>.
\<close>

type_synonym 'd BalanceMap = "(string \<times> 'd) list"

definition BalanceMap_new :: "'d BalanceMap" where
  "BalanceMap_new = []"

text \<open>The parameter of \<open>add\<close> has type \<open>Balance\<close>, so the \<open>instanceof\<close> guard holds.\<close>

definition add :: "'d BalanceMap \<Rightarrow> 'd Balance \<Rightarrow> 'd BalanceMap" where
  "add this balance = AList.update (balance_assetId balance) (balance_amount balance) this"

text \<open>
  \<open>Balance.fromModel\<close> is outside the three files: a parameter, which may raise. The loop
  is the \<open>forEach\<close> of \<open>fromBalances\<close>; an exception in the callback ends it.
\<close>

fun fromBalances_loop ::
  "('b \<Rightarrow> error + 'd Balance) \<Rightarrow> 'd BalanceMap \<Rightarrow> 'b list \<Rightarrow> error + 'd BalanceMap" where
  "fromBalances_loop Balance_fromModel balanceMap [] = Inr balanceMap"
| "fromBalances_loop Balance_fromModel balanceMap (balanceModel # rest) =
     (case Balance_fromModel balanceModel of
        Inl e \<Rightarrow> Inl e
      | Inr balance \<Rightarrow> fromBalances_loop Balance_fromModel (add balanceMap balance) rest)"

definition fromBalances :: "('b \<Rightarrow> error + 'd Balance) \<Rightarrow> 'b list \<Rightarrow> error + 'd BalanceMap" where
  "fromBalances Balance_fromModel balances =
     fromBalances_loop Balance_fromModel BalanceMap_new balances"

text \<open>The amount of the last balance of a list that bears a given asset id.\<close>

definition last_amount :: "'d Balance list \<Rightarrow> string \<Rightarrow> 'd option" where
  "last_amount balances i =
     map_option balance_amount (find (\<lambda>b. balance_assetId b = i) (rev balances))"

section \<open>Concrete inputs\<close>

text \<open>A transfer record without any delegate, and delegates to put into it.\<close>

definition bare_model :: TransferModel where
  "bare_model =
     \<lparr>transfer_id = ''t1'', network_id = ''base-sepolia'', wallet_id = ''w1'',
      address_id = ''a1'', destination = ''a2'', asset_id = ''eth'', amount = ''1000'',
      asset = \<lparr>decimals = Some 18\<rparr>, transaction = None, sponsored_send = None\<rparr>"

definition delegate_with :: "string \<Rightarrow> string option \<Rightarrow> DelegateModel" where
  "delegate_with raw payload =
     \<lparr>status = Some raw, transaction_hash = None, transaction_link = None,
      signed_payload = payload\<rparr>"

definition model_with :: "string \<Rightarrow> string option \<Rightarrow> TransferModel" where
  "model_with raw payload = bare_model\<lparr>transaction := Some (delegate_with raw payload)\<rparr>"

definition world0 :: world where
  "world0 = \<lparr>clock = 0, trace = []\<rparr>"

text \<open>
  A service whose broadcast endpoint takes 120 ms and answers with the record in which the
  transaction is broadcast, and whose get endpoint takes 50 ms and answers the same.
\<close>

definition broadcasting_api :: TransferApi where
  "broadcasting_api =
     \<lparr>broadcastTransfer = (\<lambda>tr walletId addressId transferId payload.
         (120, Inr (model_with ''broadcast'' payload))),
      getTransfer = (\<lambda>tr walletId addressId transferId.
         (50, Inr (model_with ''broadcast'' (Some ''0xsigned''))))\<rparr>"

text \<open>
  The scenario of section 8: two pages for address \<open>addr1\<close>, 100 records and the cursor
  \<open>p2\<close>, then 37 records and no more. The records are numbered 0 to 136.
\<close>

definition addr1_args :: list_args where
  "addr1_args =
     \<lparr>networkId = ''ethereum-mainnet'', assetId = ''eth'', addressId = ''addr1'',
      startTime = ''2024-01-01T00:00:00Z'', endTime = ''2024-02-01T00:00:00Z''\<rparr>"

definition page1 :: "nat StakingBalancesPage" where
  "page1 = \<lparr>data = [0..<100], has_more = True, next_page = Some ''p2''\<rparr>"

definition page2 :: "nat StakingBalancesPage" where
  "page2 = \<lparr>data = [100..<137], has_more = False, next_page = None\<rparr>"

definition two_page_api :: "(nat, string) StakeApi" where
  "two_page_api =
     \<lparr>normalizeNetwork = (\<lambda>network. network),
      fetchStakingBalances = (\<lambda>request limit cursor.
         if cursor = None then Inr page1
         else if cursor = Some ''p2'' then Inr page2
         else Inl (APIError ''unknown cursor'')),
      Asset_fetch = (\<lambda>network asset_name. Inr ''ETH'')\<rparr>"

text \<open>
  A service with three pages whose second page says \<open>has_more\<close> and names no cursor, and
  the two states in which \<open>list\<close> stands at the head of its loop after the first and after
  the second page of it.
\<close>

definition cursorless_api :: "(nat, string) StakeApi" where
  "cursorless_api =
     \<lparr>normalizeNetwork = (\<lambda>network. network),
      fetchStakingBalances = (\<lambda>request limit cursor.
         if cursor = None then Inr \<lparr>data = [1, 2], has_more = True, next_page = Some ''p2''\<rparr>
         else if cursor = Some ''p2'' then Inr \<lparr>data = [3], has_more = True, next_page = None\<rparr>
         else if cursor = Some ''p3'' then Inr \<lparr>data = [4], has_more = False, next_page = None\<rparr>
         else Inl (APIError ''unknown cursor'')),
      Asset_fetch = (\<lambda>network asset_name. Inr ''ETH'')\<rparr>"

definition after_first_page :: "(nat, string) list_state" where
  "after_first_page =
     \<lparr>stakingBalances = [StakingBalance 1 ''ETH'', StakingBalance 2 ''ETH''],
      queue = [''p2'']\<rparr>"

definition after_second_page :: "(nat, string) list_state" where
  "after_second_page =
     \<lparr>stakingBalances =
        [StakingBalance 1 ''ETH'', StakingBalance 2 ''ETH'', StakingBalance 3 ''ETH''],
      queue = []\<rparr>"

text \<open>A conversion of (amount, asset id) pairs into balances that never raises.\<close>

definition pair_balance :: "rat \<times> string \<Rightarrow> error + rat Balance" where
  "pair_balance balanceModel = Inr (Balance (fst balanceModel) (snd balanceModel))"

text \<open>
  A service whose get endpoint takes \<open>latency\<close> milliseconds and answers, at the k-th
  reload of a run, with the record whose raw status is the k-th of \<open>raws\<close>, and with a
  pending one once the list is used up.
\<close>

definition status_script_api :: "string list \<Rightarrow> nat \<Rightarrow> TransferApi" where
  "status_script_api raws latency =
     \<lparr>broadcastTransfer = (\<lambda>tr a b c payload. (latency, Inl (APIError ''not expected''))),
      getTransfer = (\<lambda>tr a b c.
         (latency,
          Inr (model_with
                 (case drop (reloads_in tr) raws of [] \<Rightarrow> ''pending'' | raw # rest \<Rightarrow> raw)
                 (Some ''0xsigned''))))\<rparr>"

text \<open>A world whose clock reads a date of the year 2023 and in which nothing was called yet.\<close>

definition late_world :: world where
  "late_world = \<lparr>clock = 1700000000000, trace = []\<rparr>"

text \<open>
  A Transfer whose active delegate is an on-chain transaction, and one whose active
  delegate is a sponsored send, with a given raw status.
\<close>

abbreviation onchain :: "TransferModel \<Rightarrow> DelegateModel \<Rightarrow> string option \<Rightarrow> Transfer" where
  "onchain m d s \<equiv> Transfer (m\<lparr>transaction := Some (d\<lparr>status := s\<rparr>)\<rparr>)"

abbreviation sponsored :: "TransferModel \<Rightarrow> DelegateModel \<Rightarrow> string option \<Rightarrow> Transfer" where
  "sponsored m d s \<equiv>
     Transfer (m\<lparr>transaction := None, sponsored_send := Some (d\<lparr>status := s\<rparr>)\<rparr>)"

section \<open>Transfer: status mapping\<close>

lemmas raw_status_defs =
  TransactionStatus_PENDING_def TransactionStatus_BROADCAST_def
  TransactionStatus_COMPLETE_def TransactionStatus_FAILED_def
  SponsoredSendStatus_PENDING_def SponsoredSendStatus_SIGNED_def
  SponsoredSendStatus_SUBMITTED_def SponsoredSendStatus_COMPLETE_def
  SponsoredSendStatus_FAILED_def

lemma delegate_of_transaction:
  "getSendTransactionDelegate (Transfer (m\<lparr>transaction := Some d\<rparr>)) = Some (Transaction d)"
  by (simp add: getSendTransactionDelegate_def getTransaction_def)

lemma delegate_of_sponsored_send:
  "getSendTransactionDelegate (Transfer (m\<lparr>transaction := None, sponsored_send := Some d\<rparr>))
     = Some (SponsoredSend d)"
  by (simp add: getSendTransactionDelegate_def getTransaction_def getSponsoredSend_def)

lemma delegate_of_neither:
  "getSendTransactionDelegate (Transfer (m\<lparr>transaction := None, sponsored_send := None\<rparr>)) = None"
  by (simp add: getSendTransactionDelegate_def getTransaction_def getSponsoredSend_def)

lemma model_with_ids:
  "getWalletId (Transfer (model_with raw payload)) = ''w1''"
  "getFromAddressId (Transfer (model_with raw payload)) = ''a1''"
  "getId (Transfer (model_with raw payload)) = ''t1''"
  by (simp_all add: getWalletId_def getFromAddressId_def getId_def model_with_def bare_model_def)

lemma model_with_delegate:
  "getSendTransactionDelegate (Transfer (model_with raw payload))
     = Some (Transaction (delegate_with raw payload))"
  by (simp add: model_with_def delegate_of_transaction)

lemma delegate_with_capabilities:
  "delegate_isSigned (Transaction (delegate_with raw payload)) = (payload \<noteq> None)"
  "delegate_getSignature (Transaction (delegate_with raw payload)) = payload"
  "delegate_getStatus (Transaction (delegate_with raw payload)) = Some raw"
  by (simp_all add: delegate_isSigned_def delegate_getSignature_def delegate_getStatus_def
        delegate_with_def)

lemma model_with_status:
  "getStatus (Transfer (model_with raw payload)) = Inr (status_switch (Some raw))"
  by (simp add: getStatus_def model_with_delegate delegate_with_capabilities)

lemma getStatus_onchain: "getStatus (onchain m d s) = Inr (status_switch s)"
  by (simp add: getStatus_def delegate_of_transaction delegate_getStatus_def)

lemma getStatus_sponsored: "getStatus (sponsored m d s) = Inr (status_switch s)"
  by (simp add: getStatus_def delegate_of_sponsored_send delegate_getStatus_def)

lemma status_switch_table:
  "status_switch (Some ''pending'') = Some PENDING"
  "status_switch (Some ''signed'') = Some PENDING"
  "status_switch (Some ''broadcast'') = Some BROADCAST"
  "status_switch (Some ''submitted'') = Some BROADCAST"
  "status_switch (Some ''complete'') = Some COMPLETE"
  "status_switch (Some ''failed'') = Some FAILED"
  by (simp_all add: status_switch_def raw_status_defs)

lemma status_switch_default:
  assumes "s \<notin> Some ` {''pending'', ''signed'', ''broadcast'', ''submitted'', ''complete'', ''failed''}"
  shows "status_switch s = None"
  using assms by (auto simp add: status_switch_def raw_status_defs)

text \<open>
  C1. For each of the nine rows of the mapping table of section 4.2, \<open>getStatus\<close> of a
  Transfer whose active delegate (an on-chain transaction, or a sponsored send when there
  is no transaction) reports the raw status of the row returns the unified status of the
  row. For a delegate of either kind whose raw status is absent or is a value that no row
  of the table names, \<open>getStatus\<close> returns \<open>undefined\<close> (\<open>Inr None\<close>): it raises nothing.
\<close>

theorem getStatus_mapping_table:
  "getStatus (onchain m d (Some TransactionStatus_PENDING)) = Inr (Some PENDING)
   \<and> getStatus (sponsored m d (Some SponsoredSendStatus_PENDING)) = Inr (Some PENDING)
   \<and> getStatus (sponsored m d (Some SponsoredSendStatus_SIGNED)) = Inr (Some PENDING)
   \<and> getStatus (onchain m d (Some TransactionStatus_BROADCAST)) = Inr (Some BROADCAST)
   \<and> getStatus (sponsored m d (Some SponsoredSendStatus_SUBMITTED)) = Inr (Some BROADCAST)
   \<and> getStatus (onchain m d (Some TransactionStatus_COMPLETE)) = Inr (Some COMPLETE)
   \<and> getStatus (sponsored m d (Some SponsoredSendStatus_COMPLETE)) = Inr (Some COMPLETE)
   \<and> getStatus (onchain m d (Some TransactionStatus_FAILED)) = Inr (Some FAILED)
   \<and> getStatus (sponsored m d (Some SponsoredSendStatus_FAILED)) = Inr (Some FAILED)
   \<and> (s \<notin> Some ` {TransactionStatus_PENDING, SponsoredSendStatus_PENDING,
                     SponsoredSendStatus_SIGNED, TransactionStatus_BROADCAST,
                     SponsoredSendStatus_SUBMITTED, TransactionStatus_COMPLETE,
                     SponsoredSendStatus_COMPLETE, TransactionStatus_FAILED,
                     SponsoredSendStatus_FAILED}
        \<longrightarrow> getStatus (onchain m d s) = Inr None \<and> getStatus (sponsored m d s) = Inr None)"
proof -
  have rows: "status_switch (Some TransactionStatus_PENDING) = Some PENDING"
    "status_switch (Some SponsoredSendStatus_PENDING) = Some PENDING"
    "status_switch (Some SponsoredSendStatus_SIGNED) = Some PENDING"
    "status_switch (Some TransactionStatus_BROADCAST) = Some BROADCAST"
    "status_switch (Some SponsoredSendStatus_SUBMITTED) = Some BROADCAST"
    "status_switch (Some TransactionStatus_COMPLETE) = Some COMPLETE"
    "status_switch (Some SponsoredSendStatus_COMPLETE) = Some COMPLETE"
    "status_switch (Some TransactionStatus_FAILED) = Some FAILED"
    "status_switch (Some SponsoredSendStatus_FAILED) = Some FAILED"
    by (simp_all add: raw_status_defs status_switch_table)
  have other: "status_switch s = None"
    if "s \<notin> Some ` {TransactionStatus_PENDING, SponsoredSendStatus_PENDING,
                     SponsoredSendStatus_SIGNED, TransactionStatus_BROADCAST,
                     SponsoredSendStatus_SUBMITTED, TransactionStatus_COMPLETE,
                     SponsoredSendStatus_COMPLETE, TransactionStatus_FAILED,
                     SponsoredSendStatus_FAILED}"
    using that by (intro status_switch_default) (auto simp add: raw_status_defs)
  show ?thesis
    unfolding getStatus_onchain getStatus_sponsored
    using rows other by simp
qed

theorem getStatus_mapping_table_witness:
  "Some ''unspecified'' \<notin> Some ` {TransactionStatus_PENDING, SponsoredSendStatus_PENDING,
                     SponsoredSendStatus_SIGNED, TransactionStatus_BROADCAST,
                     SponsoredSendStatus_SUBMITTED, TransactionStatus_COMPLETE,
                     SponsoredSendStatus_COMPLETE, TransactionStatus_FAILED,
                     SponsoredSendStatus_FAILED}
   \<and> getStatus (onchain bare_model (delegate_with ''pending'' None) (Some ''unspecified''))
       = Inr None
   \<and> getStatus (sponsored bare_model (delegate_with ''pending'' None) (Some ''unspecified''))
       = Inr None"
  using getStatus_mapping_table
          [where m = bare_model and d = "delegate_with ''pending'' None"
             and s = "Some ''unspecified''"]
  by (simp add: raw_status_defs)

section \<open>Transfer without a delegate\<close>

text \<open>
  C3. A Transfer whose record has neither a transaction nor a sponsored send:
  \<open>getTransactionHash\<close> and \<open>getTransactionLink\<close> return \<open>undefined\<close>, as the specification
  says; \<open>getStatus\<close> does not: it raises a \<open>TypeError\<close>.
\<close>

theorem getStatus_without_delegate:
  "getStatus (Transfer (m\<lparr>transaction := None, sponsored_send := None\<rparr>)) = Inl TypeError
   \<and> getTransactionHash (Transfer (m\<lparr>transaction := None, sponsored_send := None\<rparr>)) = None
   \<and> getTransactionLink (Transfer (m\<lparr>transaction := None, sponsored_send := None\<rparr>)) = None"
  by (simp add: getStatus_def getTransactionHash_def getTransactionLink_def delegate_of_neither)

section \<open>Transfer: broadcast and reload\<close>

lemma broadcast_guard:
  assumes "\<forall>d. getSendTransactionDelegate this = Some d \<longrightarrow> \<not> delegate_isSigned d"
  shows "\<not> (case getSendTransactionDelegate this of None \<Rightarrow> False | Some d \<Rightarrow> delegate_isSigned d)"
  using assms by (cases "getSendTransactionDelegate this") simp_all

text \<open>
  C4. When the Transfer has no delegate, or its delegate is not signed, \<open>broadcast\<close> raises
  the error \<open>Cannot broadcast unsigned Transfer\<close> and leaves the world as it found it: the
  trace has no new call (the broadcast endpoint was not invoked) and the clock has not
  moved. The receiver is unchanged too.
\<close>

theorem broadcast_unsigned_raises_before_any_call:
  assumes "\<forall>d. getSendTransactionDelegate this = Some d \<longrightarrow> \<not> delegate_isSigned d"
  shows "broadcast api w this = (Inl (Error ''Cannot broadcast unsigned Transfer''), this, w)"
  using broadcast_guard [OF assms] by (simp add: broadcast_def)

theorem broadcast_unsigned_raises_before_any_call_witness:
  "getSendTransactionDelegate (Transfer bare_model) = None
   \<and> getSendTransactionDelegate (Transfer (model_with ''pending'' None))
       = Some (Transaction (delegate_with ''pending'' None))
   \<and> \<not> delegate_isSigned (Transaction (delegate_with ''pending'' None))
   \<and> broadcast broadcasting_api world0 (Transfer bare_model)
       = (Inl (Error ''Cannot broadcast unsigned Transfer''), Transfer bare_model, world0)
   \<and> broadcast broadcasting_api world0 (Transfer (model_with ''pending'' None))
       = (Inl (Error ''Cannot broadcast unsigned Transfer''),
          Transfer (model_with ''pending'' None), world0)"
proof -
  have none: "getSendTransactionDelegate (Transfer bare_model) = None"
    by (simp add: getSendTransactionDelegate_def getTransaction_def getSponsoredSend_def
          bare_model_def)
  have unsigned: "getSendTransactionDelegate (Transfer (model_with ''pending'' None))
                    = Some (Transaction (delegate_with ''pending'' None))"
    "\<not> delegate_isSigned (Transaction (delegate_with ''pending'' None))"
    by (simp_all add: model_with_delegate delegate_with_capabilities)
  show ?thesis
    using none unsigned
      broadcast_unsigned_raises_before_any_call
        [where this = "Transfer bare_model" and api = broadcasting_api and w = world0]
      broadcast_unsigned_raises_before_any_call
        [where this = "Transfer (model_with ''pending'' None)" and api = broadcasting_api
           and w = world0]
    by simp
qed

text \<open>
  C5, as the specification states it, fails for \<open>broadcast\<close>: the method builds a new
  Transfer from the response and returns it, and does not assign to \<open>this.model\<close>. Here
  a signed, pending Transfer is broadcast; the service answers with the broadcast record;
  the returned Transfer carries it, and the receiver still holds the record it had, with
  status PENDING.
\<close>

theorem broadcast_keeps_receiver_snapshot_counterexample:
  "fst (broadcast broadcasting_api world0 (Transfer (model_with ''pending'' (Some ''0xsigned''))))
     = Inr (Transfer (model_with ''broadcast'' (Some ''0xsigned'')))
   \<and> fst (snd (broadcast broadcasting_api world0
                 (Transfer (model_with ''pending'' (Some ''0xsigned'')))))
       = Transfer (model_with ''pending'' (Some ''0xsigned''))
   \<and> model_with ''pending'' (Some ''0xsigned'') \<noteq> model_with ''broadcast'' (Some ''0xsigned'')
   \<and> getStatus (fst (snd (broadcast broadcasting_api world0
                 (Transfer (model_with ''pending'' (Some ''0xsigned''))))))
       = Inr (Some PENDING)"
proof -
  have run: "broadcast broadcasting_api world0 (Transfer (model_with ''pending'' (Some ''0xsigned'')))
               = (Inr (Transfer (model_with ''broadcast'' (Some ''0xsigned''))),
                  Transfer (model_with ''pending'' (Some ''0xsigned'')),
                  world0\<lparr>clock := 120,
                         trace := [BroadcastTransfer ''w1'' ''a1'' ''t1'' (Some ''0xsigned'')]\<rparr>)"
    by (simp add: broadcast_def model_with_delegate delegate_with_capabilities model_with_ids
          call_broadcastTransfer_def broadcasting_api_def fromModel_def Transfer_new_def
          world0_def)
  have differ: "model_with ''pending'' (Some ''0xsigned'') \<noteq> model_with ''broadcast'' (Some ''0xsigned'')"
    by (simp add: model_with_def delegate_with_def bare_model_def)
  have st: "getStatus (Transfer (model_with ''pending'' (Some ''0xsigned''))) = Inr (Some PENDING)"
    by (simp add: model_with_status status_switch_table)
  show ?thesis
    using differ st by (simp add: run)
qed

text \<open>
  C5, amended. A \<open>reload\<close> whose get call succeeds leaves the receiver holding exactly the
  record of the response: nothing of the earlier record is kept. A \<open>broadcast\<close> of a signed
  Transfer whose broadcast call succeeds returns a Transfer holding exactly the record of
  the response, and the receiver keeps the record it had. In both, the world has the one
  call appended to its trace and the clock moved by the time the call took.
\<close>

theorem reload_and_broadcast_snapshot:
  "(getTransfer api (trace w) (getWalletId this) (getFromAddressId this) (getId this)
      = (latency, Inr m)
    \<longrightarrow> reload api w this
          = (Inr (), Transfer m,
             w\<lparr>clock := clock w + int latency,
               trace := trace w
                 @ [GetTransfer (getWalletId this) (getFromAddressId this) (getId this)]\<rparr>))
   \<and> (getSendTransactionDelegate this = Some d \<and> delegate_isSigned d
      \<and> broadcastTransfer api (trace w) (getWalletId this) (getFromAddressId this) (getId this)
           (delegate_getSignature d) = (latency, Inr m)
    \<longrightarrow> broadcast api w this
          = (Inr (Transfer m), this,
             w\<lparr>clock := clock w + int latency,
               trace := trace w
                 @ [BroadcastTransfer (getWalletId this) (getFromAddressId this) (getId this)
                      (delegate_getSignature d)]\<rparr>))"
  by (simp add: reload_def call_getTransfer_def broadcast_def call_broadcastTransfer_def
        fromModel_def Transfer_new_def)

theorem reload_and_broadcast_snapshot_witness:
  "getTransfer broadcasting_api (trace world0) ''w1'' ''a1'' ''t1''
     = (50, Inr (model_with ''broadcast'' (Some ''0xsigned'')))
   \<and> reload broadcasting_api world0 (Transfer (model_with ''pending'' (Some ''0xsigned'')))
       = (Inr (), Transfer (model_with ''broadcast'' (Some ''0xsigned'')),
          world0\<lparr>clock := 50, trace := [GetTransfer ''w1'' ''a1'' ''t1'']\<rparr>)
   \<and> delegate_isSigned (Transaction (delegate_with ''pending'' (Some ''0xsigned'')))
   \<and> broadcast broadcasting_api world0 (Transfer (model_with ''pending'' (Some ''0xsigned'')))
       = (Inr (Transfer (model_with ''broadcast'' (Some ''0xsigned''))),
          Transfer (model_with ''pending'' (Some ''0xsigned'')),
          world0\<lparr>clock := 120,
                 trace := [BroadcastTransfer ''w1'' ''a1'' ''t1'' (Some ''0xsigned'')]\<rparr>)"
proof -
  let ?t = "Transfer (model_with ''pending'' (Some ''0xsigned''))"
  let ?d = "Transaction (delegate_with ''pending'' (Some ''0xsigned''))"
  have get: "getTransfer broadcasting_api (trace world0) ''w1'' ''a1'' ''t1''
               = (50, Inr (model_with ''broadcast'' (Some ''0xsigned'')))"
    by (simp add: broadcasting_api_def)
  have bc: "broadcastTransfer broadcasting_api (trace world0) ''w1'' ''a1'' ''t1''
              (Some ''0xsigned'') = (120, Inr (model_with ''broadcast'' (Some ''0xsigned'')))"
    by (simp add: broadcasting_api_def)
  have w: "clock world0 = 0" "trace world0 = []"
    by (simp_all add: world0_def)
  show ?thesis
    using reload_and_broadcast_snapshot
            [where api = broadcasting_api and w = world0 and this = ?t and latency = 50
               and m = "model_with ''broadcast'' (Some ''0xsigned'')" and d = ?d]
          reload_and_broadcast_snapshot
            [where api = broadcasting_api and w = world0 and this = ?t and latency = 120
               and m = "model_with ''broadcast'' (Some ''0xsigned'')" and d = ?d]
          get bc
    by (simp add: model_with_ids model_with_delegate delegate_with_capabilities w)
qed

section \<open>Transfer: wait\<close>










lemma turns_duration_nonneg: "0 \<le> turns_duration intervalSeconds pending"
  by (induction pending) auto

lemma reload_answer:
  assumes "getTransfer api (trace w) (getWalletId this) (getFromAddressId this) (getId this)
             = (latency, Inr m)"
  shows "reload api w this
           = (Inr (), Transfer m,
              w\<lparr>clock := clock w + int latency,
                trace := trace w
                  @ [GetTransfer (getWalletId this) (getFromAddressId this) (getId this)]\<rparr>)"
  using assms by (simp add: reload_def call_getTransfer_def)

lemma in_time:
  assumes "e < \<lfloor>x :: rat\<rfloor>"
  shows "of_int e < x"
proof -
  have "of_int e < (of_int \<lfloor>x\<rfloor> :: rat)" using assms by simp
  also have "\<dots> \<le> x" by simp
  finally show ?thesis .
qed

lemma wait_loop_polls:
  assumes "service_answers api intervalSeconds (trace w) this (pending @ [(latency, m)])"
    and "\<forall>p \<in> set pending. non_terminal (snd p)"
    and "getStatus (Transfer m) = Inr (Some COMPLETE) \<or> getStatus (Transfer m) = Inr (Some FAILED)"
    and "clock w - start + turns_duration intervalSeconds pending < \<lfloor>timeoutSeconds * 1000\<rfloor>"
    and "length pending < fuel"
  shows "\<exists>w'. wait_loop fuel api intervalSeconds timeoutSeconds start this w
                 = Some (Inr (Transfer m), Transfer m, w')
           \<and> clock w' = clock w + turns_duration intervalSeconds pending + int latency
           \<and> reloads_in (trace w') = reloads_in (trace w) + length pending + 1
           \<and> sleeps_in (trace w') = sleeps_in (trace w) + length pending
           \<and> (\<exists>tr a b c. trace w' = tr @ [GetTransfer a b c])"
  using assms
proof (induction pending arbitrary: this w fuel)
  case Nil
  from Nil.prems(5) obtain fuel' where fuel: "fuel = Suc fuel'"
    by (cases fuel) auto
  let ?w1 = "w\<lparr>clock := clock w + int latency,
                trace := trace w
                  @ [GetTransfer (getWalletId this) (getFromAddressId this) (getId this)]\<rparr>"
  from Nil.prems(1) have rel: "reload api w this = (Inr (), Transfer m, ?w1)"
    by (intro reload_answer) simp
  from Nil.prems(4) have t: "of_int (clock w - start) < timeoutSeconds * 1000"
    by (intro in_time) simp
  have run: "wait_loop fuel api intervalSeconds timeoutSeconds start this w
          = Some (Inr (Transfer m), Transfer m, ?w1)"
    using t rel Nil.prems(3) unfolding fuel by auto
  have "reloads_in (trace ?w1) = reloads_in (trace w) + length ([] :: (nat \<times> TransferModel) list) + 1"
    "sleeps_in (trace ?w1) = sleeps_in (trace w) + length ([] :: (nat \<times> TransferModel) list)"
    by (simp_all add: reloads_in_def sleeps_in_def)
  moreover have "clock ?w1 = clock w + turns_duration intervalSeconds [] + int latency"
    by simp
  moreover have "\<exists>tr a b c. trace ?w1 = tr @ [GetTransfer a b c]"
    by simp
  ultimately show ?case
    using run by blast
next
  case (Cons a pending)
  obtain l p where a: "a = (l, p)" by (cases a)
  from Cons.prems(5) obtain fuel' where fuel: "fuel = Suc fuel'" "length pending < fuel'"
    by (cases fuel) auto
  let ?ivl = "max 0 \<lfloor>intervalSeconds * 1000\<rfloor>"
  let ?w1 = "w\<lparr>clock := clock w + int l,
                trace := trace w
                  @ [GetTransfer (getWalletId this) (getFromAddressId this) (getId this)]\<rparr>"
  let ?w2 = "delay intervalSeconds ?w1"
  from Cons.prems(1) a have ans:
    "getTransfer api (trace w) (getWalletId this) (getFromAddressId this) (getId this) = (l, Inr p)"
    and rest: "service_answers api intervalSeconds
          (trace w @ [GetTransfer (getWalletId this) (getFromAddressId this) (getId this),
                 Delay intervalSeconds])
          (Transfer p) (pending @ [(latency, m)])"
    by simp_all
  have rel: "reload api w this = (Inr (), Transfer p, ?w1)"
    using ans by (rule reload_answer)
  from Cons.prems(2) a have "non_terminal p" by simp
  then obtain s where st: "getStatus (Transfer p) = Inr s" "s \<noteq> Some COMPLETE" "s \<noteq> Some FAILED"
    by (auto simp add: non_terminal_def split: sum.splits)
  have "clock w - start \<le> clock w - start + turns_duration intervalSeconds (a # pending)"
    using turns_duration_nonneg [of intervalSeconds "a # pending"] by simp
  with Cons.prems(4) have "clock w - start < \<lfloor>timeoutSeconds * 1000\<rfloor>" by simp
  then have t: "of_int (clock w - start) < timeoutSeconds * 1000"
    by (rule in_time)
  have step: "wait_loop fuel api intervalSeconds timeoutSeconds start this w
                = wait_loop fuel' api intervalSeconds timeoutSeconds start (Transfer p) ?w2"
    using t rel st unfolding fuel by simp
  have tr2: "trace ?w2 = trace w @ [GetTransfer (getWalletId this) (getFromAddressId this) (getId this),
                 Delay intervalSeconds]"
    by (simp add: delay_def)
  have clock2: "clock ?w2 = clock w + int l + ?ivl"
    by (simp add: delay_def)
  have rest2: "service_answers api intervalSeconds (trace ?w2) (Transfer p) (pending @ [(latency, m)])"
    using rest unfolding tr2 .
  have nt2: "\<forall>p \<in> set pending. non_terminal (snd p)"
    using Cons.prems(2) by simp
  have time2: "clock ?w2 - start + turns_duration intervalSeconds pending < \<lfloor>timeoutSeconds * 1000\<rfloor>"
    using Cons.prems(4) unfolding clock2 a by simp
  from Cons.IH [OF rest2 nt2 Cons.prems(3) time2 fuel(2)]
  obtain w' where res: "wait_loop fuel' api intervalSeconds timeoutSeconds start (Transfer p) ?w2
                 = Some (Inr (Transfer m), Transfer m, w')"
    and c: "clock w' = clock ?w2 + turns_duration intervalSeconds pending + int latency"
    and r: "reloads_in (trace w') = reloads_in (trace ?w2) + length pending + 1"
    and sl: "sleeps_in (trace w') = sleeps_in (trace ?w2) + length pending"
    and last: "\<exists>tr a b c. trace w' = tr @ [GetTransfer a b c]"
    by blast
  have "clock w' = clock w + turns_duration intervalSeconds (a # pending) + int latency"
    using c unfolding clock2 a by simp
  moreover have "reloads_in (trace w') = reloads_in (trace w) + length (a # pending) + 1"
    using r unfolding tr2 by (simp add: reloads_in_def)
  moreover have "sleeps_in (trace w') = sleeps_in (trace w) + length (a # pending)"
    using sl unfolding tr2 by (simp add: sleeps_in_def)
  ultimately show ?case
    using res last unfolding step by blast
qed

lemma raw_status_getStatus:
  assumes "raw_status m = Some raw"
  shows "getStatus (Transfer m) = Inr (status_switch (Some raw))"
  using assms by (auto simp add: raw_status_def getStatus_def split: option.splits)


text \<open>
  C7. Take any service, any Transfer and any world (whatever its clock reads), and let the
  service answer the successive reloads of the run with records of which the last is the
  first whose unified status is COMPLETE or FAILED, every reload before it succeeding with
  a status that is neither; and let the turns before that reload end before the timeout
  is over (before its last whole millisecond, so that the deadline test passes however
  the product with 1000 is rounded). Then \<open>wait\<close> returns, given fuel for these turns, and
  what it returns is the Transfer of that reload, which is also what the receiver then
  holds. It returns at the moment that reload ends: the clock has moved by the earlier
  turns and by that reload and no more, the run has made one reload for each answer and
  one sleep for each answer before the last, none after it, and the last event of the
  trace is the reload. In particular, when the raw statuses of three successive reloads
  are pending, broadcast and complete, with interval 0.2 s and timeout 10 s (and the first
  two turns ending within the ten seconds), \<open>wait\<close> makes exactly two sleeps and returns on
  the third reload, with unified status COMPLETE.
\<close>

theorem wait_returns_at_first_terminal_reload:
  "(service_answers api intervalSeconds (trace w) this (pending @ [(latency, m)])
      \<and> (\<forall>p \<in> set pending. non_terminal (snd p))
      \<and> (getStatus (Transfer m) = Inr (Some COMPLETE) \<or> getStatus (Transfer m) = Inr (Some FAILED))
      \<and> turns_duration intervalSeconds pending < \<lfloor>timeoutSeconds * 1000\<rfloor>
      \<and> length pending < fuel
    \<longrightarrow> (\<exists>w'. wait fuel api intervalSeconds timeoutSeconds this w
                  = Some (Inr (Transfer m), Transfer m, w')
          \<and> clock w' = clock w + turns_duration intervalSeconds pending + int latency
          \<and> reloads_in (trace w') = reloads_in (trace w) + length pending + 1
          \<and> sleeps_in (trace w') = sleeps_in (trace w) + length pending
          \<and> (\<exists>tr a b c. trace w' = tr @ [GetTransfer a b c])))
   \<and> (service_answers api (1/5) (trace w) this [(la, ma), (lb, mb), (lc, mc)]
      \<and> raw_status ma = Some ''pending''
      \<and> raw_status mb = Some ''broadcast''
      \<and> raw_status mc = Some ''complete''
      \<and> int la + 200 + int lb + 200 < 10 * 1000
      \<and> 2 < fuel
    \<longrightarrow> (\<exists>w'. wait fuel api (1/5) 10 this w = Some (Inr (Transfer mc), Transfer mc, w')
          \<and> getStatus (Transfer mc) = Inr (Some COMPLETE)
          \<and> sleeps_in (trace w') = sleeps_in (trace w) + 2
          \<and> reloads_in (trace w') = reloads_in (trace w) + 3
          \<and> clock w' = clock w + int la + 200 + int lb + 200 + int lc))"
proof (intro conjI impI)
  assume a: "service_answers api intervalSeconds (trace w) this (pending @ [(latency, m)])
      \<and> (\<forall>p \<in> set pending. non_terminal (snd p))
      \<and> (getStatus (Transfer m) = Inr (Some COMPLETE) \<or> getStatus (Transfer m) = Inr (Some FAILED))
      \<and> turns_duration intervalSeconds pending < \<lfloor>timeoutSeconds * 1000\<rfloor>
      \<and> length pending < fuel"
  then have "clock w - clock w + turns_duration intervalSeconds pending < \<lfloor>timeoutSeconds * 1000\<rfloor>"
    by simp
  with a show "\<exists>w'. wait fuel api intervalSeconds timeoutSeconds this w
                  = Some (Inr (Transfer m), Transfer m, w')
          \<and> clock w' = clock w + turns_duration intervalSeconds pending + int latency
          \<and> reloads_in (trace w') = reloads_in (trace w) + length pending + 1
          \<and> sleeps_in (trace w') = sleeps_in (trace w) + length pending
          \<and> (\<exists>tr a b c. trace w' = tr @ [GetTransfer a b c])"
    unfolding wait_def by (intro wait_loop_polls) simp_all
next
  assume a: "service_answers api (1/5) (trace w) this [(la, ma), (lb, mb), (lc, mc)]
      \<and> raw_status ma = Some ''pending''
      \<and> raw_status mb = Some ''broadcast''
      \<and> raw_status mc = Some ''complete''
      \<and> int la + 200 + int lb + 200 < 10 * 1000
      \<and> 2 < fuel"
  let ?pending = "[(la, ma), (lb, mb)]"
  from a have st: "getStatus (Transfer ma) = Inr (Some PENDING)"
    "getStatus (Transfer mb) = Inr (Some BROADCAST)"
    "getStatus (Transfer mc) = Inr (Some COMPLETE)"
    by (simp_all add: raw_status_getStatus status_switch_table)
  then have nt: "\<forall>p \<in> set ?pending. non_terminal (snd p)"
    by (simp add: non_terminal_def)
  have dur: "turns_duration (1/5) ?pending = int la + 200 + int lb + 200"
    by simp
  from a have ans: "service_answers api (1/5) (trace w) this (?pending @ [(lc, mc)])"
    by simp
  have time: "clock w - clock w + turns_duration (1/5) ?pending < \<lfloor>(10 :: rat) * 1000\<rfloor>"
    using a unfolding dur by simp
  have fuel: "length ?pending < fuel"
    using a by simp
  from wait_loop_polls [OF ans nt _ time fuel] st(3)
  obtain w' where "wait_loop fuel api (1/5) 10 (clock w) this w = Some (Inr (Transfer mc), Transfer mc, w')"
    "clock w' = clock w + turns_duration (1/5) ?pending + int lc"
    "reloads_in (trace w') = reloads_in (trace w) + length ?pending + 1"
    "sleeps_in (trace w') = sleeps_in (trace w) + length ?pending"
    by blast
  then show "\<exists>w'. wait fuel api (1/5) 10 this w = Some (Inr (Transfer mc), Transfer mc, w')
          \<and> getStatus (Transfer mc) = Inr (Some COMPLETE)
          \<and> sleeps_in (trace w') = sleeps_in (trace w) + 2
          \<and> reloads_in (trace w') = reloads_in (trace w) + 3
          \<and> clock w' = clock w + int la + 200 + int lb + 200 + int lc"
    using st(3) unfolding wait_def dur by auto
qed

theorem wait_returns_at_first_terminal_reload_witness:
  "service_answers (status_script_api [''pending'', ''broadcast'', ''complete''] 50) (1/5)
     (trace late_world) (Transfer (model_with ''pending'' (Some ''0xsigned'')))
     [(50, model_with ''pending'' (Some ''0xsigned'')),
      (50, model_with ''broadcast'' (Some ''0xsigned'')),
      (50, model_with ''complete'' (Some ''0xsigned''))]
   \<and> raw_status (model_with ''pending'' (Some ''0xsigned'')) = Some ''pending''
   \<and> raw_status (model_with ''broadcast'' (Some ''0xsigned'')) = Some ''broadcast''
   \<and> raw_status (model_with ''complete'' (Some ''0xsigned'')) = Some ''complete''
   \<and> non_terminal (model_with ''pending'' (Some ''0xsigned''))
   \<and> non_terminal (model_with ''broadcast'' (Some ''0xsigned''))
   \<and> getStatus (Transfer (model_with ''complete'' (Some ''0xsigned''))) = Inr (Some COMPLETE)
   \<and> turns_duration (1/5)
        [(50, model_with ''pending'' (Some ''0xsigned'')),
         (50, model_with ''broadcast'' (Some ''0xsigned''))] = 500
   \<and> wait 3 (status_script_api [''pending'', ''broadcast'', ''complete''] 50) (1/5) 10
        (Transfer (model_with ''pending'' (Some ''0xsigned''))) late_world
       = Some (Inr (Transfer (model_with ''complete'' (Some ''0xsigned''))),
               Transfer (model_with ''complete'' (Some ''0xsigned'')),
               \<lparr>clock = 1700000000550,
                trace = [GetTransfer ''w1'' ''a1'' ''t1'', Delay (1/5),
                         GetTransfer ''w1'' ''a1'' ''t1'', Delay (1/5),
                         GetTransfer ''w1'' ''a1'' ''t1'']\<rparr>)"
proof -
  let ?api = "status_script_api [''pending'', ''broadcast'', ''complete''] 50"
  let ?t = "Transfer (model_with ''pending'' (Some ''0xsigned''))"
  let ?ma = "model_with ''pending'' (Some ''0xsigned'')"
  let ?mb = "model_with ''broadcast'' (Some ''0xsigned'')"
  let ?mc = "model_with ''complete'' (Some ''0xsigned'')"
  have ans: "service_answers ?api (1/5) (trace late_world) ?t [(50, ?ma), (50, ?mb), (50, ?mc)]"
    by (simp add: late_world_def status_script_api_def reloads_in_def model_with_ids)
  have raw: "raw_status ?ma = Some ''pending''" "raw_status ?mb = Some ''broadcast''"
    "raw_status ?mc = Some ''complete''"
    by (simp_all add: raw_status_def model_with_delegate delegate_with_capabilities)
  have st: "non_terminal ?ma" "non_terminal ?mb" "getStatus (Transfer ?mc) = Inr (Some COMPLETE)"
    by (simp_all add: non_terminal_def model_with_status status_switch_table)
  have dur: "turns_duration (1/5) [(50, ?ma), (50, ?mb)] = 500"
    by simp
  have run: "wait 3 ?api (1/5) 10 ?t late_world
       = Some (Inr (Transfer ?mc), Transfer ?mc,
               \<lparr>clock = 1700000000550,
                trace = [GetTransfer ''w1'' ''a1'' ''t1'', Delay (1/5),
                         GetTransfer ''w1'' ''a1'' ''t1'', Delay (1/5),
                         GetTransfer ''w1'' ''a1'' ''t1'']\<rparr>)"
    by (simp add: wait_def numeral_3_eq_3 reload_def call_getTransfer_def status_script_api_def
        reloads_in_def model_with_ids model_with_status status_switch_table delay_def
        late_world_def)
  from wait_returns_at_first_terminal_reload
         [where api = ?api and w = late_world and this = ?t and fuel = 3
            and la = 50 and ma = ?ma and lb = 50 and mb = ?mb and lc = 50 and mc = ?mc]
       ans raw
  have "\<exists>w'. wait 3 ?api (1/5) 10 ?t late_world = Some (Inr (Transfer ?mc), Transfer ?mc, w')
          \<and> getStatus (Transfer ?mc) = Inr (Some COMPLETE)
          \<and> sleeps_in (trace w') = sleeps_in (trace late_world) + 2
          \<and> reloads_in (trace w') = reloads_in (trace late_world) + 3
          \<and> clock w' = clock late_world + int 50 + 200 + int 50 + 200 + int 50"
    by simp
  with ans raw st dur run show ?thesis
    by simp
qed

section \<open>StakingBalance.list: paging\<close>

lemma list_body_single:
  assumes "queue st = [q]"
    and "fetchStakingBalances api (request_of api args) 100 (if q \<noteq> [] then Some q else None)
           = Inr p"
    and "Asset_fetch api (networkId args) (assetId args) = Inr a"
  shows "list_body api args st =
           Inr \<lparr>stakingBalances = stakingBalances st @ map (\<lambda>m. StakingBalance m a) (data p),
                queue = (if has_more p
                         then (case next_page p of
                                 None \<Rightarrow> []
                               | Some c \<Rightarrow> if c \<noteq> [] then [c] else [])
                         else [])\<rparr>"
  using assms by (simp add: list_body_def request_of_def Let_def split: option.splits)

lemma list_loop_serves:
  assumes "serves api (request_of api args) (if q \<noteq> [] then Some q else None) pages"
    and "stops (last pages)"
    and "Asset_fetch api (networkId args) (assetId args) = Inr a"
    and "queue st = [q]"
    and "length pages < fuel"
  shows "list_loop fuel api args st = Some (Inr (stakingBalances st @ records_of a pages))"
  using assms
proof (induction pages arbitrary: q st fuel)
  case Nil
  then show ?case by simp
next
  case (Cons p ps)
  let ?collected = "stakingBalances st @ map (\<lambda>m. StakingBalance m a) (data p)"
  from Cons.prems(5) obtain fuel' where fuel: "fuel = Suc fuel'" "length ps < fuel'"
    by (cases fuel) auto
  show ?case
  proof (cases ps)
    case Nil
    with Cons.prems have fetch:
      "fetchStakingBalances api (request_of api args) 100 (if q \<noteq> [] then Some q else None)
         = Inr p"
      and stop: "stops p" by simp_all
    from fuel Nil obtain fuel'' where fuel'': "fuel' = Suc fuel''"
      by (cases fuel') auto
    have body: "list_body api args st = Inr \<lparr>stakingBalances = ?collected, queue = []\<rparr>"
      using list_body_single [OF Cons.prems(4) fetch Cons.prems(3)] stop
      by (auto simp add: stops_def split: option.splits if_splits)
    show ?thesis
      by (simp add: fuel fuel'' Cons.prems(4) body Nil records_of_def)
  next
    case (Cons p' ps')
    with Cons.prems obtain c where fetch:
      "fetchStakingBalances api (request_of api args) 100 (if q \<noteq> [] then Some q else None)
         = Inr p"
      and more: "has_more p" "next_page p = Some c" "c \<noteq> []"
      and rest: "serves api (request_of api args) (Some c) ps"
      by (auto split: option.splits)
    have body: "list_body api args st = Inr \<lparr>stakingBalances = ?collected, queue = [c]\<rparr>"
      using list_body_single [OF Cons.prems(4) fetch Cons.prems(3)] more by simp
    have "list_loop fuel' api args \<lparr>stakingBalances = ?collected, queue = [c]\<rparr>
            = Some (Inr (?collected @ records_of a ps))"
      using Cons.IH [of c _ fuel'] rest more Cons.prems(2,3) Cons fuel
      by simp
    then show ?thesis
      by (simp add: fuel Cons.prems(4) body records_of_def)
  qed
qed

lemma two_page_serves:
  "serves two_page_api (request_of two_page_api addr1_args) None [page1, page2]"
  by (simp add: two_page_api_def page1_def)

text \<open>
  C8. Let the service hand out a sequence of pages: the first when asked without a cursor,
  every page but the last saying \<open>has_more\<close> and naming the (non-empty) cursor under which
  the next one is served, the last saying \<open>has_more = false\<close>; and let the asset lookup
  succeed. Then \<open>list\<close> returns, given fuel for one loop test more than there are pages,
  and what it returns is the records of the pages, page after page, each page in the
  order the service gave it. The scenario of section 8 (100 records and cursor \<open>p2\<close>, then
  37 records) is the instance that follows the theorem: 137 records, numbered 0 to 136.
\<close>

theorem list_returns_pages_in_order:
  assumes "serves api (request_of api args) None pages"
    and "\<not> has_more (last pages)"
    and "Asset_fetch api (networkId args) (assetId args) = Inr a"
    and "length pages < fuel"
  shows "StakingBalance_list fuel api args = Some (Inr (records_of a pages))"
proof -
  have "list_loop fuel api args list_init
          = Some (Inr (stakingBalances (list_init :: ('a, 'b) list_state) @ records_of a pages))"
    using assms
    by (intro list_loop_serves [where q = "[]"]) (simp_all add: stops_def list_init_def)
  then show ?thesis
    by (simp add: StakingBalance_list_def list_init_def)
qed

theorem list_returns_pages_in_order_witness:
  "StakingBalance_list 3 two_page_api addr1_args
     = Some (Inr (map (\<lambda>m. StakingBalance m ''ETH'') [0..<137]))
   \<and> length (map (\<lambda>m. StakingBalance m ''ETH'' :: (nat, string) StakingBalance) [0..<137]) = 137"
proof -
  have "[0..<137] = [0..<100] @ [100..<137]"
    using upt_add_eq_append [of 0 100 37] by simp
  then have recs:
    "records_of ''ETH'' [page1, page2] = map (\<lambda>m. StakingBalance m ''ETH'') [0..<137]"
    by (simp add: records_of_def page1_def page2_def)
  have "StakingBalance_list 3 two_page_api addr1_args
          = Some (Inr (records_of ''ETH'' [page1, page2]))"
    using two_page_serves
    by (intro list_returns_pages_in_order) (simp_all add: page2_def two_page_api_def)
  then show ?thesis
    by (simp add: recs)
qed

text \<open>
  C2, as the specification states it, fails: the source has no protocol-violation error.
  The second page of this service says \<open>has_more\<close> and names no cursor; \<open>list\<close> raises
  nothing and returns the records of the first two pages.
\<close>

theorem list_missing_cursor_counterexample:
  "StakingBalance_list 3 cursorless_api addr1_args
     = Some (Inr [StakingBalance 1 ''ETH'', StakingBalance 2 ''ETH'', StakingBalance 3 ''ETH''])"
  by (simp add: StakingBalance_list_def list_init_def numeral_3_eq_3 list_body_def
        cursorless_api_def addr1_args_def)

text \<open>
  C2, amended. When a page says \<open>has_more\<close> and names no cursor (none, or the empty
  string), \<open>list\<close> stops paging there: it raises nothing and returns the records of the
  pages up to and including that one, in page order.
\<close>

theorem list_stops_at_missing_cursor:
  assumes "serves api (request_of api args) None pages"
    and "has_more (last pages)"
    and "next_page (last pages) = None \<or> next_page (last pages) = Some []"
    and "Asset_fetch api (networkId args) (assetId args) = Inr a"
    and "length pages < fuel"
  shows "StakingBalance_list fuel api args = Some (Inr (records_of a pages))"
proof -
  have "list_loop fuel api args list_init
          = Some (Inr (stakingBalances (list_init :: ('a, 'b) list_state) @ records_of a pages))"
    using assms
    by (intro list_loop_serves [where q = "[]"]) (auto simp add: stops_def list_init_def)
  then show ?thesis
    by (simp add: StakingBalance_list_def list_init_def)
qed

theorem list_stops_at_missing_cursor_witness:
  "StakingBalance_list 3 cursorless_api addr1_args
     = Some (Inr (records_of ''ETH''
         [\<lparr>data = [1, 2], has_more = True, next_page = Some ''p2''\<rparr>,
          \<lparr>data = [3], has_more = True, next_page = None\<rparr>]))"
  by (intro list_stops_at_missing_cursor) (simp_all add: cursorless_api_def)

section \<open>StakingBalance.list: the work queue\<close>

lemma list_body_queue:
  assumes "list_body api args st = Inr st'"
  shows "\<exists>added. queue st' = tl (queue st) @ added \<and> length added \<le> 1"
proof -
  have tl: "(case queue st of [] \<Rightarrow> [] | p # ps \<Rightarrow> ps) = tl (queue st)"
    by (cases "queue st") simp_all
  from assms show ?thesis
    unfolding list_body_def Let_def tl
    by (auto split: sum.splits option.splits if_splits)
qed

lemma loop_head_queue: "loop_head api args st \<Longrightarrow> length (queue st) \<le> 1"
proof (induction rule: loop_head.induct)
  case loop_head_init
  show ?case by (simp add: list_init_def)
next
  case (loop_head_step st st')
  from list_body_queue [OF loop_head_step.hyps(3)]
  obtain added where "queue st' = tl (queue st) @ added" "length added \<le> 1" by blast
  with loop_head_step.IH loop_head_step.hyps(2) show ?case
    by (cases "queue st") simp_all
qed

text \<open>
  C9. The queue starts as the single empty-string sentinel. In every state in which an
  execution of \<open>list\<close> stands at the head of its loop, for any service and any arguments,
  the queue holds at most one cursor. A loop body that does not raise leaves the queue it
  found without its first entry and with at most one entry added at the end. The loop
  goes through its body while the queue is non-empty and returns the collected records
  once it is empty.
\<close>

theorem queue_holds_at_most_one_cursor:
  "queue (list_init :: ('m, 'a) list_state) = ['''']
   \<and> (loop_head api args st \<longrightarrow> length (queue st) \<le> 1)
   \<and> (list_body api args st = Inr st'
        \<longrightarrow> (\<exists>added. queue st' = tl (queue st) @ added \<and> length added \<le> 1))
   \<and> (length (queue st) > 0 \<longrightarrow>
        list_loop (Suc fuel) api args st
          = (case list_body api args st of
               Inl e \<Rightarrow> Some (Inl e)
             | Inr st' \<Rightarrow> list_loop fuel api args st'))
   \<and> (queue st = [] \<longrightarrow> list_loop (Suc fuel) api args st = Some (Inr (stakingBalances st)))"
  using loop_head_queue [of api args st] list_body_queue [of api args st st']
  by (simp add: list_init_def)

theorem queue_holds_at_most_one_cursor_witness:
  "loop_head cursorless_api addr1_args after_first_page
   \<and> length (queue after_first_page) \<le> 1
   \<and> list_body cursorless_api addr1_args after_first_page = Inr after_second_page
   \<and> queue after_second_page = tl (queue after_first_page)
   \<and> list_loop (Suc 0) cursorless_api addr1_args after_second_page
       = Some (Inr (stakingBalances after_second_page))
   \<and> list_loop (Suc (Suc 0)) cursorless_api addr1_args after_first_page
       = Some (Inr (stakingBalances after_second_page))"
proof -
  have first: "list_body cursorless_api addr1_args list_init = Inr after_first_page"
    by (simp add: list_body_def list_init_def cursorless_api_def after_first_page_def)
  have second: "list_body cursorless_api addr1_args after_first_page = Inr after_second_page"
    by (simp add: list_body_def cursorless_api_def after_first_page_def after_second_page_def)
  have head: "loop_head cursorless_api addr1_args after_first_page"
    by (rule loop_head_step [OF loop_head_init _ first]) (simp add: list_init_def)
  have empty: "queue after_second_page = []"
    by (simp add: after_second_page_def)
  show ?thesis
    using head second empty
      queue_holds_at_most_one_cursor
        [where api = cursorless_api and args = addr1_args and st = after_first_page
           and st' = after_second_page and fuel = 0]
      queue_holds_at_most_one_cursor
        [where api = cursorless_api and args = addr1_args and st = after_second_page
           and st' = after_second_page and fuel = 0]
      queue_holds_at_most_one_cursor
        [where api = cursorless_api and args = addr1_args and st = after_first_page
           and st' = after_second_page and fuel = "Suc 0"]
    by (simp add: after_first_page_def)
qed

section \<open>BalanceMap\<close>

lemma fromBalances_loop_foldl:
  assumes "map Balance_fromModel balances = map Inr bs"
  shows "fromBalances_loop Balance_fromModel m balances = Inr (foldl add m bs)"
  using assms
proof (induction balances arbitrary: m bs)
  case Nil
  then show ?case by simp
next
  case (Cons x xs)
  then obtain b bs' where "bs = b # bs'" "Balance_fromModel x = Inr b"
    "map Balance_fromModel xs = map Inr bs'"
    by (cases bs) auto
  with Cons.IH [of bs' "add m b"] show ?case by simp
qed

lemma find_append_cases:
  "find P (xs @ ys) = (case find P xs of None \<Rightarrow> find P ys | Some x \<Rightarrow> Some x)"
  by (induction xs) simp_all

lemma last_amount_Cons:
  "last_amount (b # bs) i =
     (case last_amount bs i of
        None \<Rightarrow> if balance_assetId b = i then Some (balance_amount b) else None
      | Some v \<Rightarrow> Some v)"
  by (simp add: last_amount_def find_append_cases split: option.splits)

lemma map_of_add:
  "map_of (add m b) i = (if balance_assetId b = i then Some (balance_amount b) else map_of m i)"
  by (simp add: add_def update_conv')

lemma map_of_foldl_add:
  "map_of (foldl add m bs) i = (case last_amount bs i of None \<Rightarrow> map_of m i | Some v \<Rightarrow> Some v)"
proof (induction bs arbitrary: m)
  case Nil
  show ?case by (simp add: last_amount_def)
next
  case (Cons b bs)
  show ?case
    by (simp add: Cons.IH last_amount_Cons map_of_add split: option.splits)
qed

lemma distinct_foldl_add:
  "distinct (map fst m) \<Longrightarrow> distinct (map fst (foldl add m bs))"
proof (induction bs arbitrary: m)
  case Nil
  then show ?case by simp
next
  case (Cons b bs)
  have "distinct (map fst (add m b))"
    using Cons.prems by (simp add: add_def distinct_update)
  then show ?case
    using Cons.IH [of "add m b"] by simp
qed

lemma keys_foldl_add:
  "fst ` set (foldl add m bs) = fst ` set m \<union> balance_assetId ` set bs"
proof (induction bs arbitrary: m)
  case Nil
  show ?case by simp
next
  case (Cons b bs)
  have "fst ` set (add m b) = insert (balance_assetId b) (fst ` set m)"
    by (simp add: add_def dom_update)
  then show ?case
    using Cons.IH [of "add m b"] by auto
qed

text \<open>
  C10. Let every model of a list convert to a balance (\<open>bs\<close> are the balances, in
  order). Then \<open>fromBalances\<close> returns a map with exactly one entry for each asset id that
  occurs in the list and none for any other, and it binds each asset id to the amount of
  the last balance of the list that bears it. And adding a balance twice gives the very
  map that adding it once gives, entry for entry and in the same order.
\<close>

theorem balance_map_last_write_wins:
  "(map Balance_fromModel balances = map Inr bs \<longrightarrow>
      (\<exists>balanceMap. fromBalances Balance_fromModel balances = Inr balanceMap
         \<and> distinct (map fst balanceMap)
         \<and> fst ` set balanceMap = balance_assetId ` set bs
         \<and> (\<forall>i. map_of balanceMap i = last_amount bs i)))
   \<and> add (add m b) b = add m b"
proof -
  have "distinct (map fst (foldl add BalanceMap_new bs))"
    by (intro distinct_foldl_add) (simp add: BalanceMap_new_def)
  moreover have "fst ` set (foldl add BalanceMap_new bs) = balance_assetId ` set bs"
    by (simp add: keys_foldl_add BalanceMap_new_def)
  moreover have "map_of (foldl add BalanceMap_new bs) i = last_amount bs i" for i
    by (simp add: map_of_foldl_add BalanceMap_new_def split: option.splits)
  moreover have "add (add m b) b = add m b"
    by (simp add: add_def)
  ultimately show ?thesis
    by (simp add: fromBalances_def fromBalances_loop_foldl)
qed

theorem balance_map_last_write_wins_witness:
  "map pair_balance [(1, ''eth''), (5, ''usdc''), (2, ''eth'')]
     = map Inr [Balance 1 ''eth'', Balance 5 ''usdc'', Balance 2 ''eth'']
   \<and> fromBalances pair_balance [(1, ''eth''), (5, ''usdc''), (2, ''eth'')]
       = Inr [(''eth'', 2), (''usdc'', 5)]
   \<and> last_amount [Balance 1 ''eth'', Balance 5 ''usdc'', Balance (2 :: rat) ''eth''] ''eth''
       = Some 2
   \<and> add (add [(''eth'', 2 :: rat)] (Balance 5 ''usdc'')) (Balance 5 ''usdc'')
       = [(''eth'', 2), (''usdc'', 5)]"
  using balance_map_last_write_wins
          [where Balance_fromModel = pair_balance
             and balances = "[(1, ''eth''), (5, ''usdc''), (2, ''eth'')]"
             and bs = "[Balance 1 ''eth'', Balance 5 ''usdc'', Balance 2 ''eth'']"
             and m = "[(''eth'', 2)]" and b = "Balance 5 ''usdc''"]
  by (simp add: pair_balance_def fromBalances_def BalanceMap_new_def add_def last_amount_def)

end
